theory Spec2Isabelle
  imports Complex_Main "HOL-Library.Multiset" "HOL-Library.Sublist"
begin

section \<open>JavaScript values used by the service\<close>

text \<open>
  Numbers are modelled exactly: a price or a day count is a rational, a score is an
  integer. IEEE-754 rounding, overflow to Infinity and the loss of precision above
  \<open>2^53\<close> are outside the model. A field that is \<open>undefined\<close>, \<open>null\<close> or
  \<open>NaN\<close> on input is \<open>None\<close>: the code reads every such field through \<open>||\<close>,
  \<open>?.\<close> or a truthiness test, which treat the three alike. A computed score that would
  be \<open>NaN\<close> is \<open>None\<close> as well.

  A string is a list of UTF-16 code units below 256 (ASCII and Latin-1), one \<open>char\<close>
  each. The bullet of the email template lies outside that range; it is written as its
  three UTF-8 bytes.
\<close>

datatype exn = TypeError string | SyntaxError string | Error string

fun message :: "exn \<Rightarrow> string" where
  "message (TypeError m) = m"
| "message (SyntaxError m) = m"
| "message (Error m) = m"

text \<open>\<open>x || d\<close> on an optional number: \<open>undefined\<close>, \<open>null\<close>, \<open>NaN\<close> and \<open>0\<close> are falsy.\<close>

definition truthy_num :: "rat option \<Rightarrow> bool" where
  "truthy_num x = (case x of None \<Rightarrow> False | Some v \<Rightarrow> v \<noteq> 0)"

definition or_num :: "rat option \<Rightarrow> rat \<Rightarrow> rat" where
  "or_num x d = (case x of None \<Rightarrow> d | Some v \<Rightarrow> if v \<noteq> 0 then v else d)"

text \<open>\<open>x || d\<close> on an optional string: \<open>undefined\<close>, \<open>null\<close> and \<open>''\<close> are falsy.\<close>

definition truthy_str :: "string option \<Rightarrow> bool" where
  "truthy_str x = (case x of None \<Rightarrow> False | Some s \<Rightarrow> s \<noteq> [])"

definition or_str :: "string option \<Rightarrow> string \<Rightarrow> string" where
  "or_str x d = (case x of None \<Rightarrow> d | Some s \<Rightarrow> if s \<noteq> [] then s else d)"

text \<open>\<open>Math.round\<close>: the nearest integer, a half rounding towards plus infinity.\<close>

definition js_round :: "rat \<Rightarrow> int" where
  "js_round x = \<lfloor>x + 1 / 2\<rfloor>"

text \<open>
  \<open>Math.max(...xs)\<close> and \<open>Math.min(...xs)\<close>. On no arguments JavaScript answers
  \<open>-Infinity\<close> and \<open>Infinity\<close>; \<open>None\<close> stands for that answer.
\<close>

fun math_max :: "rat list \<Rightarrow> rat option" where
  "math_max [] = None"
| "math_max (x # xs) = Some (fold max xs x)"

fun math_min :: "rat list \<Rightarrow> rat option" where
  "math_min [] = None"
| "math_min (x # xs) = Some (fold min xs x)"

text \<open>Decimal rendering of a natural number and of an integer score.\<close>

definition digit_char :: "nat \<Rightarrow> char" where
  "digit_char d = (if d = 0 then CHR ''0'' else if d = 1 then CHR ''1'' else if d = 2 then CHR ''2''
     else if d = 3 then CHR ''3'' else if d = 4 then CHR ''4'' else if d = 5 then CHR ''5''
     else if d = 6 then CHR ''6'' else if d = 7 then CHR ''7'' else if d = 8 then CHR ''8''
     else CHR ''9'')"

fun decimal :: "nat \<Rightarrow> string" where
  "decimal n = (if n < 10 then [digit_char n] else decimal (n div 10) @ [digit_char (n mod 10)])"

definition int_str :: "int \<Rightarrow> string" where
  "int_str i = (if i < 0 then CHR ''-'' # decimal (nat (- i)) else decimal (nat i))"

definition score_str :: "int option \<Rightarrow> string" where
  "score_str s = (case s of None \<Rightarrow> ''NaN'' | Some i \<Rightarrow> int_str i)"

text \<open>
  The rendering of a non-integer number depends on the engine and, for
  \<open>toLocaleString\<close>, on the host's locale; both renderings are parameters.
\<close>

record runtime =
  toString :: "rat \<Rightarrow> string"
  toLocaleString :: "rat \<Rightarrow> string"

section \<open>Documents\<close>

text \<open>A populated vendor reference: the vendor document's \<open>_id\<close> and \<open>name\<close>.\<close>

record vendor =
  vendor_id :: string
  name :: "string option"

record itemPricing =
  itemName :: "string option"
  ip_quantity :: "rat option"
  unitPrice :: "rat option"
  ip_totalPrice :: "rat option"
  ip_notes :: "string option"

record parsedData =
  totalPrice :: "rat option"
  itemPricing :: "itemPricing list"
  deliveryTimeline :: "string option"
  deliveryDays :: "rat option"
  paymentTerms :: "string option"
  warranty :: "string option"
  validityPeriod :: "string option"
  conditions :: "string list"
  pd_notes :: "string option"

text \<open>
  A proposal as the comparison reads it. \<open>vendorId\<close> is \<open>None\<close> when the populated
  reference is \<open>null\<close> (the vendor was deleted), \<open>parsedData\<close> is \<open>None\<close> when absent.
\<close>

record proposal =
  vendorId :: "vendor option"
  parsedData :: "parsedData option"

record item =
  item_name :: string
  quantity :: rat
  specifications :: "string option"

record requirements =
  req_paymentTerms :: "string option"
  req_warranty :: "string option"
  deliveryLocation :: "string option"
  additionalTerms :: "string list"

record rfp =
  title :: string
  description :: "string option"
  budget :: "rat option"
  rfp_deliveryDays :: "rat option"
  items :: "item list option"
  rfp_requirements :: "requirements option"
  status :: string

section \<open>The fallback comparison\<close>

record vendorScore =
  vs_vendorId :: "string option"
  vendorName :: string
  priceScore :: "int option"
  deliveryScore :: "int option"
  termsScore :: int
  overallScore :: "int option"
  pros :: "string list"
  cons :: "string list"
  summary :: string

record comparison =
  cmp_summary :: string
  priceAnalysis :: string
  deliveryAnalysis :: string
  termsAnalysis :: string

record recommendation =
  recommendedVendorId :: "string option"
  recommendedVendorName :: string
  reasoning :: string
  risks :: "string list"
  alternativeOption :: "string option"

record analysis =
  comparison :: comparison
  vendorScores :: "vendorScore list"
  recommendation :: recommendation

text \<open>\<open>p.parsedData?.totalPrice\<close>, \<open>p.parsedData?.deliveryDays\<close>, \<open>p.parsedData?.warranty\<close>.\<close>

definition p_totalPrice :: "proposal \<Rightarrow> rat option" where
  "p_totalPrice p = (case parsedData p of None \<Rightarrow> None | Some d \<Rightarrow> totalPrice d)"

definition p_deliveryDays :: "proposal \<Rightarrow> rat option" where
  "p_deliveryDays p = (case parsedData p of None \<Rightarrow> None | Some d \<Rightarrow> deliveryDays d)"

definition p_warranty :: "proposal \<Rightarrow> string option" where
  "p_warranty p = (case parsedData p of None \<Rightarrow> None | Some d \<Rightarrow> warranty d)"

text \<open>\<open>const price = p.parsedData?.totalPrice || 0\<close>\<close>

definition price :: "proposal \<Rightarrow> rat" where
  "price p = or_num (p_totalPrice p) 0"

text \<open>\<open>const delivery = p.parsedData?.deliveryDays || 999\<close>\<close>

definition delivery :: "proposal \<Rightarrow> rat" where
  "delivery p = or_num (p_deliveryDays p) 999"

text \<open>
  \<open>Math.max(...proposals.map(pr => pr.parsedData?.totalPrice || 0)) || 1\<close>;
  \<open>-Infinity\<close> is truthy and stays.
\<close>

definition maxPrice :: "proposal list \<Rightarrow> rat option" where
  "maxPrice proposals = map_option (\<lambda>m. or_num (Some m) 1) (math_max (map price proposals))"

text \<open>
  \<open>Math.min(...proposals.filter(pr => pr.parsedData?.totalPrice).map(pr =>
  pr.parsedData.totalPrice)) || 0\<close>; \<open>Infinity\<close> is truthy and stays. On a proposal
  that passes the filter, \<open>price\<close> is its \<open>totalPrice\<close>.
\<close>

definition minPrice :: "proposal list \<Rightarrow> rat option" where
  "minPrice proposals =
     map_option (\<lambda>m. or_num (Some m) 0)
       (math_min (map price (filter (\<lambda>pr. truthy_num (p_totalPrice pr)) proposals)))"

text \<open>
  \<open>price > 0 ? Math.round(100 - ((price - minPrice) / (maxPrice - minPrice || 1)) * 50) : 50\<close>.
  With an infinite \<open>minPrice\<close> or \<open>maxPrice\<close> the quotient is \<open>NaN\<close>, and so is the score.
\<close>

definition priceScore_raw :: "proposal list \<Rightarrow> proposal \<Rightarrow> int option" where
  "priceScore_raw proposals p =
     (if price p > 0 then
        (case (maxPrice proposals, minPrice proposals) of
           (Some mx, Some mn) \<Rightarrow>
             Some (js_round (100 - ((price p - mn) / or_num (Some (mx - mn)) 1) * 50))
         | _ \<Rightarrow> None)
      else Some 50)"

text \<open>\<open>delivery < 999 ? Math.round(100 - (delivery / 60) * 50) : 50\<close>\<close>

definition deliveryScore_raw :: "proposal \<Rightarrow> int" where
  "deliveryScore_raw p =
     (if delivery p < 999 then js_round (100 - (delivery p / 60) * 50) else 50)"

text \<open>\<open>p.parsedData?.warranty ? 80 : 60\<close>\<close>

definition termsScore_of :: "proposal \<Rightarrow> int" where
  "termsScore_of p = (if truthy_str (p_warranty p) then 80 else 60)"

text \<open>\<open>Math.round((priceScore + deliveryScore + termsScore) / 3)\<close>, on the unclamped scores.\<close>

definition overallScore_raw :: "proposal list \<Rightarrow> proposal \<Rightarrow> int option" where
  "overallScore_raw proposals p =
     map_option (\<lambda>ps. js_round (of_int (ps + deliveryScore_raw p + termsScore_of p) / 3))
       (priceScore_raw proposals p)"

text \<open>\<open>Math.max(0, Math.min(100, s))\<close>; \<open>NaN\<close> passes through.\<close>

definition clamp100 :: "int option \<Rightarrow> int option" where
  "clamp100 s = map_option (\<lambda>v. max 0 (min 100 v)) s"

text \<open>\<open>[...].filter(Boolean)\<close> on a list of strings and \<open>null\<close>s.\<close>

definition filter_Boolean :: "string option list \<Rightarrow> string list" where
  "filter_Boolean xs = map (\<lambda>x. or_str x []) (filter truthy_str xs)"

text \<open>The callback of \<open>proposals.map\<close>.\<close>

definition score_proposal :: "runtime \<Rightarrow> proposal list \<Rightarrow> proposal \<Rightarrow> vendorScore" where
  "score_proposal rt proposals p =
     (let vname = or_str (case vendorId p of None \<Rightarrow> None | Some v \<Rightarrow> name v) ''Unknown Vendor''
      in \<lparr> vs_vendorId = map_option vendor_id (vendorId p),
           vendorName = vname,
           priceScore = clamp100 (priceScore_raw proposals p),
           deliveryScore = clamp100 (Some (deliveryScore_raw p)),
           termsScore = termsScore_of p,
           overallScore = clamp100 (overallScore_raw proposals p),
           pros = filter_Boolean
             [Some (if price p > 0 then ''Quoted price: $'' @ toLocaleString rt (price p)
                    else ''Price provided''),
              Some (if delivery p < 999 then ''Delivery in '' @ toString rt (delivery p) @ '' days''
                    else ''Delivery timeline specified''),
              (if truthy_str (p_warranty p) then Some (''Warranty: '' @ or_str (p_warranty p) [])
               else None)],
           cons = filter_Boolean
             [(if \<not> truthy_num (p_totalPrice p) then Some ''Price not clearly specified'' else None),
              (if \<not> truthy_str (p_warranty p) then Some ''No warranty information'' else None)],
           summary = vname @ '' offers ''
             @ (if price p > 0 then ''$'' @ toLocaleString rt (price p) else ''competitive pricing'')
             @ '' with ''
             @ (if delivery p < 999 then toString rt (delivery p) @ '' days'' else ''flexible'')
             @ '' delivery.'' \<rparr>)"

text \<open>
  \<open>Array.prototype.sort\<close> with a comparator: a stable sort (ECMAScript 2019), modelled
  as insertion from the right. An element goes before the first one it does not compare
  greater than. The comparator \<open>(a, b) => b.overallScore - a.overallScore\<close> yields
  \<open>NaN\<close> when a score is \<open>NaN\<close>, which \<open>sort\<close> reads as \<open>0\<close>.
\<close>

fun insert_by :: "('a \<Rightarrow> 'a \<Rightarrow> int) \<Rightarrow> 'a \<Rightarrow> 'a list \<Rightarrow> 'a list" where
  "insert_by cmp x [] = [x]"
| "insert_by cmp x (y # ys) = (if cmp x y \<le> 0 then x # y # ys else y # insert_by cmp x ys)"

definition array_sort :: "('a \<Rightarrow> 'a \<Rightarrow> int) \<Rightarrow> 'a list \<Rightarrow> 'a list" where
  "array_sort cmp xs = foldr (insert_by cmp) xs []"

definition by_overallScore :: "vendorScore \<Rightarrow> vendorScore \<Rightarrow> int" where
  "by_overallScore a b =
     (case (overallScore a, overallScore b) of (Some x, Some y) \<Rightarrow> y - x | _ \<Rightarrow> 0)"

text \<open>
  \<open>fallbackCompareProposals(rfp, proposals)\<close>. On an empty list \<open>vendorScores[0]\<close> is
  \<open>undefined\<close> and reading \<open>recommended.vendorId\<close> throws a TypeError.
\<close>

definition fallbackCompareProposals :: "runtime \<Rightarrow> rfp \<Rightarrow> proposal list \<Rightarrow> exn + analysis" where
  "fallbackCompareProposals rt r proposals =
     (let scores = array_sort by_overallScore (map (score_proposal rt proposals) proposals)
      in case scores of
           [] \<Rightarrow> Inl (TypeError ''Cannot read properties of undefined (reading 'vendorId')'')
         | recommended # rest \<Rightarrow>
             Inr \<lparr> comparison =
                     \<lparr> cmp_summary = ''Compared '' @ decimal (length proposals)
                         @ '' vendor proposals based on price, delivery, and terms.'',
                       priceAnalysis = ''Pricing compared based on total quoted amounts.'',
                       deliveryAnalysis =
                         ''Delivery timelines compared based on stated delivery days.'',
                       termsAnalysis =
                         ''Terms evaluated based on warranty and payment conditions.'' \<rparr>,
                   vendorScores = scores,
                   recommendation =
                     \<lparr> recommendedVendorId = vs_vendorId recommended,
                       recommendedVendorName = vendorName recommended,
                       reasoning = vendorName recommended
                         @ '' has the highest overall score of ''
                         @ score_str (overallScore recommended)
                         @ ''/100 based on price competitiveness, delivery timeline, and terms.'',
                       risks = [''This is a simplified analysis. Manual review recommended.''],
                       alternativeOption =
                         (case rest of [] \<Rightarrow> None
                          | second # _ \<Rightarrow> Some (vendorName second @ '' as second choice'')) \<rparr> \<rparr>)"






section \<open>The fallback email template\<close>




text \<open>\<open>Array.prototype.join\<close>\<close>

fun join :: "string \<Rightarrow> string list \<Rightarrow> string" where
  "join sep [] = []"
| "join sep [x] = x"
| "join sep (x # y # ys) = x @ sep @ join sep (y # ys)"








section \<open>Strings\<close>

text \<open>Case mapping and character classes on the code units below 256.\<close>

definition upper_letters :: string where
  "upper_letters = ''ABCDEFGHIJKLMNOPQRSTUVWXYZ''
     @ [CHR 0xC0, CHR 0xC1, CHR 0xC2, CHR 0xC3, CHR 0xC4, CHR 0xC5, CHR 0xC6, CHR 0xC7,
        CHR 0xC8, CHR 0xC9, CHR 0xCA, CHR 0xCB, CHR 0xCC, CHR 0xCD, CHR 0xCE, CHR 0xCF,
        CHR 0xD0, CHR 0xD1, CHR 0xD2, CHR 0xD3, CHR 0xD4, CHR 0xD5, CHR 0xD6,
        CHR 0xD8, CHR 0xD9, CHR 0xDA, CHR 0xDB, CHR 0xDC, CHR 0xDD, CHR 0xDE]"

definition lower_letters :: string where
  "lower_letters = ''abcdefghijklmnopqrstuvwxyz''
     @ [CHR 0xE0, CHR 0xE1, CHR 0xE2, CHR 0xE3, CHR 0xE4, CHR 0xE5, CHR 0xE6, CHR 0xE7,
        CHR 0xE8, CHR 0xE9, CHR 0xEA, CHR 0xEB, CHR 0xEC, CHR 0xED, CHR 0xEE, CHR 0xEF,
        CHR 0xF0, CHR 0xF1, CHR 0xF2, CHR 0xF3, CHR 0xF4, CHR 0xF5, CHR 0xF6,
        CHR 0xF8, CHR 0xF9, CHR 0xFA, CHR 0xFB, CHR 0xFC, CHR 0xFD, CHR 0xFE]"

definition lower_char :: "char \<Rightarrow> char" where
  "lower_char c = (case map_of (zip upper_letters lower_letters) c of None \<Rightarrow> c | Some d \<Rightarrow> d)"

text \<open>
  The upper-case forms of \<open>0xDF\<close>, \<open>0xFF\<close> and \<open>0xB5\<close> lie outside the range;
  the code only capitalises ASCII letters.
\<close>

definition upper_char :: "char \<Rightarrow> char" where
  "upper_char c = (case map_of (zip lower_letters upper_letters) c of None \<Rightarrow> c | Some d \<Rightarrow> d)"

definition toLowerCase :: "string \<Rightarrow> string" where
  "toLowerCase s = map lower_char s"

definition is_digit :: "char \<Rightarrow> bool" where
  "is_digit c = (c \<in> set ''0123456789'')"

text \<open>The white space of \<open>\s\<close> below 256.\<close>

definition is_space :: "char \<Rightarrow> bool" where
  "is_space c = (c \<in> set [CHR 0x09, CHR 0x0A, CHR 0x0B, CHR 0x0C, CHR 0x0D, CHR 0x20, CHR 0xA0])"

text \<open>\<open>s.includes(sub)\<close>\<close>

fun str_includes :: "string \<Rightarrow> string \<Rightarrow> bool" where
  "str_includes [] sub = (sub = [])"
| "str_includes (c # cs) sub = (prefix sub (c # cs) \<or> str_includes cs sub)"

text \<open>\<open>s.substring(0, n)\<close>\<close>

definition substring0 :: "nat \<Rightarrow> string \<Rightarrow> string" where
  "substring0 n s = take n s"

section \<open>Regular expressions\<close>

text \<open>
  The fragment of the regular expressions that the service uses: sets of single
  characters, literal words, sequence, alternation, greedy quantifiers on single
  characters, capture groups that are not nested, and the end anchor.
\<close>

datatype atom = Chr char | Digit | Space

datatype rx =
    OneOf "atom list"
  | Lit string
  | Seq rx rx
  | Alt rx rx
  | Star "atom list"
  | Plus "atom list"
  | Opt "atom list"
  | Group rx
  | Eol

text \<open>
  With the \<open>i\<close> flag two characters match when their canonical (upper-case) forms
  are equal.
\<close>

fun atom_match :: "bool \<Rightarrow> atom \<Rightarrow> char \<Rightarrow> bool" where
  "atom_match i (Chr p) c = (if i then upper_char p = upper_char c else p = c)"
| "atom_match i Digit c = is_digit c"
| "atom_match i Space c = is_space c"

definition in_set :: "bool \<Rightarrow> atom list \<Rightarrow> char \<Rightarrow> bool" where
  "in_set i as c = list_ex (\<lambda>a. atom_match i a c) as"

fun strip_lit :: "bool \<Rightarrow> string \<Rightarrow> string \<Rightarrow> string option" where
  "strip_lit i [] s = Some s"
| "strip_lit i (p # ps) [] = None"
| "strip_lit i (p # ps) (c # cs) = (if atom_match i (Chr p) c then strip_lit i ps cs else None)"

text \<open>The inputs left after a greedy run of characters, the longest run first.\<close>

fun greedy :: "bool \<Rightarrow> atom list \<Rightarrow> string \<Rightarrow> string list" where
  "greedy i as [] = [[]]"
| "greedy i as (c # cs) = (if in_set i as c then greedy i as cs else []) @ [c # cs]"

text \<open>
  All the ways in which an expression matches a prefix of the input, in the order in
  which a backtracking matcher tries them: the captured groups and the input left.
\<close>

fun rx_match :: "bool \<Rightarrow> rx \<Rightarrow> string \<Rightarrow> (string list \<times> string) list" where
  "rx_match i (OneOf as) s =
     (case s of [] \<Rightarrow> [] | c # cs \<Rightarrow> if in_set i as c then [([], cs)] else [])"
| "rx_match i (Lit p) s = (case strip_lit i p s of None \<Rightarrow> [] | Some r \<Rightarrow> [([], r)])"
| "rx_match i (Seq a b) s =
     concat (map (\<lambda>(g1, r1). map (\<lambda>(g2, r2). (g1 @ g2, r2)) (rx_match i b r1)) (rx_match i a s))"
| "rx_match i (Alt a b) s = rx_match i a s @ rx_match i b s"
| "rx_match i (Star as) s = map (\<lambda>r. ([], r)) (greedy i as s)"
| "rx_match i (Plus as) s =
     (case s of [] \<Rightarrow> []
      | c # cs \<Rightarrow> if in_set i as c then map (\<lambda>r. ([], r)) (greedy i as cs) else [])"
| "rx_match i (Opt as) s =
     (case s of [] \<Rightarrow> [([], s)]
      | c # cs \<Rightarrow> if in_set i as c then [([], cs), ([], s)] else [([], s)])"
| "rx_match i (Group a) s =
     map (\<lambda>(g, r). (g @ [take (length s - length r) s], r)) (rx_match i a s)"
| "rx_match i Eol s = (if s = [] then [([], s)] else [])"

text \<open>A match: the text before it, the matched text, the groups and the text after it.\<close>

record rmatch =
  before :: string
  m0 :: string
  groups :: "string list"
  after :: string

text \<open>The leftmost match: \<open>String.prototype.match\<close> and \<open>exec\<close> without the \<open>g\<close> flag.\<close>

fun search_from :: "bool \<Rightarrow> rx \<Rightarrow> string \<Rightarrow> string \<Rightarrow> rmatch option" where
  "search_from i r pre [] =
     (case rx_match i r [] of [] \<Rightarrow> None
      | (g, rest) # _ \<Rightarrow> Some \<lparr> before = pre, m0 = [], groups = g, after = rest \<rparr>)"
| "search_from i r pre (c # cs) =
     (case rx_match i r (c # cs) of
        [] \<Rightarrow> search_from i r (pre @ [c]) cs
      | (g, rest) # _ \<Rightarrow>
          Some \<lparr> before = pre, m0 = take (length (c # cs) - length rest) (c # cs),
                 groups = g, after = rest \<rparr>)"

definition exec :: "bool \<Rightarrow> rx \<Rightarrow> string \<Rightarrow> rmatch option" where
  "exec i r s = search_from i r [] s"

text \<open>
  Group \<open>n\<close> of a match, counted from 1. Every group that the code reads takes part
  in each match of its expression.
\<close>

definition group :: "rmatch \<Rightarrow> nat \<Rightarrow> string" where
  "group m n = (if n - 1 < length (groups m) then groups m ! (n - 1) else [])"

datatype 'a outcome = Returns 'a | Throws exn | Diverges

text \<open>
  \<open>while ((match = pattern.exec(s)) !== null)\<close> with the \<open>g\<close> flag: each search
  starts where the last match ended. A match that does not advance is found again and
  again, and the loop does not end. The \<open>before\<close> of a later match is counted from
  the end of the match before it.
\<close>

function exec_loop :: "bool \<Rightarrow> rx \<Rightarrow> string \<Rightarrow> rmatch list outcome" where
  "exec_loop i r s =
     (case exec i r s of
        None \<Rightarrow> Returns []
      | Some m \<Rightarrow>
          if length (after m) < length s
          then (case exec_loop i r (after m) of Returns ms \<Rightarrow> Returns (m # ms) | e \<Rightarrow> e)
          else Diverges)"
  by pat_completeness auto
termination
  by (relation "measure (\<lambda>(i, r, s). length s)") auto

declare exec_loop.simps [simp del]

text \<open>
  \<open>s.replace(re, '')\<close> with the \<open>g\<close> flag, as a scan: \<open>k\<close> characters still belong
  to the last match and are dropped. After an empty match the scan moves on by one
  character.
\<close>

fun replace_all :: "bool \<Rightarrow> rx \<Rightarrow> nat \<Rightarrow> string \<Rightarrow> string" where
  "replace_all i r k [] = []"
| "replace_all i r k (c # cs) =
     (if 0 < k then replace_all i r (k - 1) cs
      else (case rx_match i r (c # cs) of
              [] \<Rightarrow> c # replace_all i r 0 cs
            | (g, rest) # _ \<Rightarrow>
                (let n = length (c # cs) - length rest
                 in if n = 0 then c # replace_all i r 0 cs else replace_all i r (n - 1) cs)))"

text \<open>\<open>s.match(re) || []\<close> with the \<open>g\<close> flag: the matched texts.\<close>

fun match_all :: "bool \<Rightarrow> rx \<Rightarrow> nat \<Rightarrow> string \<Rightarrow> string list" where
  "match_all i r k [] = (if k = 0 \<and> rx_match i r [] \<noteq> [] then [[]] else [])"
| "match_all i r k (c # cs) =
     (if 0 < k then match_all i r (k - 1) cs
      else (case rx_match i r (c # cs) of
              [] \<Rightarrow> match_all i r 0 cs
            | (g, rest) # _ \<Rightarrow>
                (let n = length (c # cs) - length rest
                 in take n (c # cs) # match_all i r (n - 1) cs)))"

section \<open>Numbers from text\<close>

datatype number = NaN | Num int

definition digit_val :: "char \<Rightarrow> int" where
  "digit_val c =
     (case map_of (zip ''0123456789abcdefABCDEF''
             [0, 1, 2, 3, 4, 5, 6, 7, 8, 9, 10, 11, 12, 13, 14, 15, 10, 11, 12, 13, 14, 15]) c of
        None \<Rightarrow> 0 | Some v \<Rightarrow> v)"

definition digits_val :: "int \<Rightarrow> string \<Rightarrow> int" where
  "digits_val radix ds = foldl (\<lambda>a c. radix * a + digit_val c) 0 ds"

definition is_hex_digit :: "char \<Rightarrow> bool" where
  "is_hex_digit c = (c \<in> set ''0123456789abcdefABCDEF'')"

text \<open>
  \<open>parseInt(s)\<close>: leading white space, a sign, a \<open>0x\<close> prefix for radix 16, then the
  longest run of digits; \<open>NaN\<close> when there is none.
\<close>

definition parseInt :: "string \<Rightarrow> number" where
  "parseInt s =
     (let t = dropWhile is_space s;
          neg = (case t of [] \<Rightarrow> False | c # _ \<Rightarrow> c = CHR ''-'');
          u = (case t of [] \<Rightarrow> [] | c # cs \<Rightarrow> if c = CHR ''-'' \<or> c = CHR ''+'' then cs else t);
          hex = (prefix ''0x'' u \<or> prefix ''0X'' u);
          ds = (if hex then takeWhile is_hex_digit (drop 2 u) else takeWhile is_digit u);
          v = digits_val (if hex then 16 else 10) ds
      in if ds = [] then NaN else Num (if neg then - v else v))"

text \<open>\<open>n > 1\<close> and \<open>n *= 7\<close> on a number that may be \<open>NaN\<close>.\<close>

definition gt_one :: "number \<Rightarrow> bool" where
  "gt_one n = (case n of NaN \<Rightarrow> False | Num v \<Rightarrow> 1 < v)"

definition times7 :: "number \<Rightarrow> number" where
  "times7 n = (case n of NaN \<Rightarrow> NaN | Num v \<Rightarrow> Num (v * 7))"

section \<open>The regex extraction of an RFP\<close>

definition word_s :: "string \<Rightarrow> rx" where
  "word_s w = Seq (Lit w) (Opt [Chr CHR ''s''])"

fun alts :: "rx list \<Rightarrow> rx" where
  "alts [] = Lit []"
| "alts [r] = r"
| "alts (r # rs) = Alt r (alts rs)"

text \<open>\<open>/\$[\d,]+|\d+[\d,]*\s*(dollars|usd)/i\<close>\<close>

definition budget_rx :: rx where
  "budget_rx =
     Alt (Seq (OneOf [Chr CHR ''$'']) (Plus [Digit, Chr CHR '','']))
         (Seq (Plus [Digit]) (Seq (Star [Digit, Chr CHR '','']) (Seq (Star [Space])
            (Group (Alt (Lit ''dollars'') (Lit ''usd''))))))"

text \<open>\<open>/[$,\s]|dollars|usd/gi\<close>\<close>

definition budget_strip_rx :: rx where
  "budget_strip_rx =
     Alt (OneOf [Chr CHR ''$'', Chr CHR '','', Space]) (Alt (Lit ''dollars'') (Lit ''usd''))"

text \<open>\<open>/(\d+)\s*(days?|weeks?)/i\<close>\<close>

definition delivery_rx :: rx where
  "delivery_rx =
     Seq (Group (Plus [Digit])) (Seq (Star [Space])
       (Group (alts [word_s ''day'', word_s ''week''])))"

text \<open>\<open>/(\d+)\s*(w1|w2|...)/gi\<close>\<close>

definition item_rx :: "rx list \<Rightarrow> rx" where
  "item_rx ws = Seq (Group (Plus [Digit])) (Seq (Star [Space]) (Group (alts ws)))"

definition itemPatterns :: "rx list" where
  "itemPatterns =
     [item_rx [word_s ''laptop'', word_s ''computer'', word_s ''pc'', word_s ''machine''],
      item_rx [word_s ''monitor'', word_s ''display'', word_s ''screen''],
      item_rx [word_s ''keyboard'', Lit ''mice'', Lit ''mouse''],
      item_rx [word_s ''chair'', word_s ''desk'', word_s ''table''],
      item_rx [word_s ''phone'', word_s ''mobile'', word_s ''handset''],
      item_rx [word_s ''printer'', word_s ''scanner''],
      item_rx [word_s ''server'', word_s ''router'', word_s ''switche'']]"

text \<open>\<open>/(\d+)\s*GB\s*RAM/i\<close>\<close>

definition ram_rx :: rx where
  "ram_rx = Seq (Group (Plus [Digit])) (Seq (Star [Space]) (Seq (Lit ''GB'')
              (Seq (Star [Space]) (Lit ''RAM''))))"

text \<open>\<open>/(\d+)[- ]?(inch|")/i\<close>\<close>

definition screen_rx :: rx where
  "screen_rx = Seq (Group (Plus [Digit])) (Seq (Opt [Chr CHR ''-'', Chr CHR '' ''])
                 (Group (Alt (Lit ''inch'') (Lit [CHR 0x22]))))"

text \<open>\<open>/(\d+)\s*(year|month)s?\s*warranty/i\<close>\<close>

definition warranty_rx :: rx where
  "warranty_rx =
     Seq (Group (Plus [Digit])) (Seq (Star [Space]) (Seq (Group (Alt (Lit ''year'') (Lit ''month'')))
       (Seq (Opt [Chr CHR ''s'']) (Seq (Star [Space]) (Lit ''warranty'')))))"

record extracted_item =
  ei_name :: string
  ei_quantity :: number
  ei_specifications :: string

record extraction =
  ex_title :: string
  ex_description :: string
  ex_budget :: "number option"
  currency :: string
  ex_deliveryDays :: "number option"
  ex_items :: "extracted_item list"
  ex_requirements :: requirements

text \<open>\<open>w.replace(/s$/, '')\<close>: the expression is case sensitive and matches at the end only.\<close>

definition strip_s :: "string \<Rightarrow> string" where
  "strip_s w =
     (case exec False (Seq (Lit ''s'') Eol) w of None \<Rightarrow> w | Some m \<Rightarrow> before m @ after m)"

text \<open>\<open>w.charAt(0).toUpperCase() + w.slice(1)\<close>\<close>

definition capitalize :: "string \<Rightarrow> string" where
  "capitalize w = (case w of [] \<Rightarrow> [] | c # cs \<Rightarrow> upper_char c # cs)"

definition item_of_match :: "rmatch \<Rightarrow> extracted_item" where
  "item_of_match m =
     \<lparr> ei_name = capitalize (strip_s (group m 2)),
       ei_quantity = parseInt (group m 1),
       ei_specifications = [] \<rparr>"

text \<open>\<open>itemPatterns.forEach(pattern => { while (...) items.push(...) })\<close>\<close>

fun collect_items :: "rx list \<Rightarrow> string \<Rightarrow> extracted_item list outcome" where
  "collect_items [] s = Returns []"
| "collect_items (r # rs) s =
     (case exec_loop True r s of
        Returns ms \<Rightarrow>
          (case collect_items rs s of
             Returns later \<Rightarrow> Returns (map item_of_match ms @ later)
           | e \<Rightarrow> e)
      | Throws e \<Rightarrow> Throws e
      | Diverges \<Rightarrow> Diverges)"

text \<open>\<open>items[0].specifications = ...\<close>\<close>

definition set_first_spec :: "string \<Rightarrow> extracted_item list \<Rightarrow> extracted_item list" where
  "set_first_spec sp its =
     (case its of [] \<Rightarrow> [] | x # xs \<Rightarrow> x\<lparr> ei_specifications := sp \<rparr> # xs)"

text \<open>
  \<open>items.find(i => i.name.toLowerCase().includes('monitor'))\<close> followed by the
  assignment to the item found.
\<close>

fun set_monitor_spec :: "string \<Rightarrow> extracted_item list \<Rightarrow> extracted_item list" where
  "set_monitor_spec sp [] = []"
| "set_monitor_spec sp (x # xs) =
     (if str_includes (toLowerCase (ei_name x)) ''monitor''
      then x\<lparr> ei_specifications := sp \<rparr> # xs
      else x # set_monitor_spec sp xs)"

definition extract_budget :: "string \<Rightarrow> number option" where
  "extract_budget userInput =
     (case exec True budget_rx userInput of
        None \<Rightarrow> None
      | Some m \<Rightarrow> Some (parseInt (replace_all True budget_strip_rx 0 (m0 m))))"

definition extract_deliveryDays :: "string \<Rightarrow> number option" where
  "extract_deliveryDays input =
     (case exec True delivery_rx input of
        None \<Rightarrow> None
      | Some m \<Rightarrow>
          Some (if str_includes (group m 2) ''week'' then times7 (parseInt (group m 1))
                else parseInt (group m 1)))"

definition extract_paymentTerms :: "string \<Rightarrow> string option" where
  "extract_paymentTerms input =
     (if str_includes input ''net 30'' then Some ''Net 30''
      else if str_includes input ''net 60'' then Some ''Net 60''
      else if str_includes input ''net 15'' then Some ''Net 15''
      else if str_includes input ''immediate'' \<or> str_includes input ''advance''
           then Some ''Advance Payment''
      else None)"

definition extract_warranty :: "string \<Rightarrow> string option" where
  "extract_warranty input =
     (case exec True warranty_rx input of
        None \<Rightarrow> None
      | Some m \<Rightarrow>
          Some (group m 1 @ '' '' @ group m 2
                @ (if gt_one (parseInt (group m 1)) then ''s'' else []) @ '' warranty''))"

definition attach_specs :: "string \<Rightarrow> extracted_item list \<Rightarrow> extracted_item list" where
  "attach_specs userInput its =
     (let its1 = (case exec True ram_rx userInput of
                    None \<Rightarrow> its
                  | Some m \<Rightarrow> if 0 < length its then set_first_spec (group m 1 @ ''GB RAM'') its
                              else its)
      in case exec True screen_rx userInput of
           None \<Rightarrow> its1
         | Some m \<Rightarrow> set_monitor_spec (group m 1 @ '' inch'') its1)"

text \<open>\<open>fallbackParseRFP\<close> on a string.\<close>

definition fallbackParseRFP_string :: "string \<Rightarrow> extraction outcome" where
  "fallbackParseRFP_string userInput =
     (let input = toLowerCase userInput
      in case collect_items itemPatterns userInput of
           Returns found \<Rightarrow>
             (let its = attach_specs userInput found
              in Returns
                   \<lparr> ex_title = (if 0 < length its
                                  then join '' and '' (map ei_name its) @ '' Procurement''
                                  else ''Procurement Request''),
                     ex_description = substring0 200 userInput,
                     ex_budget = extract_budget userInput,
                     currency = ''USD'',
                     ex_deliveryDays = extract_deliveryDays input,
                     ex_items = (if 0 < length its then its
                                 else [\<lparr> ei_name = ''Items as specified'', ei_quantity = Num 1,
                                          ei_specifications = substring0 100 userInput \<rparr>]),
                     ex_requirements =
                       \<lparr> req_paymentTerms = extract_paymentTerms input,
                         req_warranty = extract_warranty input,
                         deliveryLocation = None,
                         additionalTerms = [] \<rparr> \<rparr>)
         | Throws e \<Rightarrow> Throws e
         | Diverges \<Rightarrow> Diverges)"

text \<open>The placeholder item of an extraction that found no item.\<close>

definition placeholder_item :: "string \<Rightarrow> extracted_item" where
  "placeholder_item s = \<lparr> ei_name = ''Items as specified'', ei_quantity = Num 1,
                           ei_specifications = take 100 s \<rparr>"

section \<open>The regex extraction of a vendor proposal\<close>

text \<open>\<open>/\$[\d,]+\.?\d*/g\<close>\<close>

definition price_rx :: rx where
  "price_rx = Seq (OneOf [Chr CHR ''$'']) (Seq (Plus [Digit, Chr CHR '',''])
                (Seq (Opt [Chr CHR ''.'']) (Star [Digit])))"

text \<open>\<open>/(\d+)\s*(days?|weeks?|business days?)/i\<close>\<close>

definition proposal_delivery_rx :: rx where
  "proposal_delivery_rx =
     Seq (Group (Plus [Digit])) (Seq (Star [Space])
       (Group (alts [word_s ''day'', word_s ''week'', word_s ''business day''])))"

text \<open>
  \<open>parseFloat(s)\<close>: leading white space, a sign, digits, a point and digits; \<open>None\<close>
  is \<open>NaN\<close>. Exponents and \<open>Infinity\<close> are left out: the argument here consists of
  digits and at most one point.
\<close>

definition parseFloat :: "string \<Rightarrow> rat option" where
  "parseFloat s =
     (let t = dropWhile is_space s;
          neg = (case t of [] \<Rightarrow> False | c # _ \<Rightarrow> c = CHR ''-'');
          u = (case t of [] \<Rightarrow> [] | c # cs \<Rightarrow> if c = CHR ''-'' \<or> c = CHR ''+'' then cs else t);
          ds = takeWhile is_digit u;
          r = dropWhile is_digit u;
          fs = (case r of [] \<Rightarrow> [] | c # cs \<Rightarrow> if c = CHR ''.'' then takeWhile is_digit cs else []);
          v = of_int (digits_val 10 ds) + of_int (digits_val 10 fs) / 10 ^ length fs
      in if ds = [] \<and> fs = [] then None else Some (if neg then - v else v))"

text \<open>\<open>Math.max(...prices)\<close> on a non-empty list: \<open>NaN\<close> when one of them is \<open>NaN\<close>.\<close>

definition max_price :: "rat option list \<Rightarrow> rat option" where
  "max_price prices =
     (if list_all (\<lambda>p. p \<noteq> None) prices then math_max (List.map_filter id prices) else None)"

definition rat_of_number :: "number \<Rightarrow> rat option" where
  "rat_of_number n = (case n of NaN \<Rightarrow> None | Num v \<Rightarrow> Some (of_int v))"

definition fallbackParseProposal_string :: "string \<Rightarrow> parsedData" where
  "fallbackParseProposal_string emailBody =
     (let text = toLowerCase emailBody;
          priceMatches = match_all False price_rx 0 emailBody;
          prices = map (\<lambda>p. parseFloat
                     (replace_all False (OneOf [Chr CHR ''$'', Chr CHR '','']) 0 p)) priceMatches;
          days = (case exec True proposal_delivery_rx text of
                    None \<Rightarrow> None
                  | Some m \<Rightarrow>
                      Some (if str_includes (group m 2) ''week'' then times7 (parseInt (group m 1))
                            else parseInt (group m 1)))
      in \<lparr> totalPrice = (if 0 < length prices then max_price prices else None),
           itemPricing = [],
           deliveryTimeline =
             (case days of
                Some (Num d) \<Rightarrow> if d \<noteq> 0 then Some (int_str d @ '' days'') else None
              | _ \<Rightarrow> None),
           deliveryDays = (case days of None \<Rightarrow> None | Some n \<Rightarrow> rat_of_number n),
           paymentTerms =
             (if str_includes text ''net 30'' then Some ''Net 30''
              else if str_includes text ''net 60'' then Some ''Net 60''
              else if str_includes text ''net 15'' then Some ''Net 15''
              else None),
           warranty = extract_warranty text,
           validityPeriod = None,
           conditions = [],
           pd_notes = Some ''Parsed using fallback parser'' \<rparr>)"

section \<open>The parsing operations\<close>

text \<open>
  A value as a caller can pass it: the controllers hand over fields of a JSON request
  body or of a stored document. Arrays and objects are one case, they have no
  \<open>toLowerCase\<close>.
\<close>

datatype jsvalue = JString string | JNumber rat | JBool bool | JNull | JUndefined | JObject

text \<open>\<open>v.toLowerCase()\<close> is the first thing that both extractors do.\<close>

definition no_toLowerCase :: "string \<Rightarrow> jsvalue \<Rightarrow> exn" where
  "no_toLowerCase var v =
     (case v of
        JNull \<Rightarrow> TypeError ''Cannot read properties of null (reading 'toLowerCase')''
      | JUndefined \<Rightarrow> TypeError ''Cannot read properties of undefined (reading 'toLowerCase')''
      | _ \<Rightarrow> TypeError (var @ ''.toLowerCase is not a function''))"

definition fallbackParseRFP :: "jsvalue \<Rightarrow> extraction outcome" where
  "fallbackParseRFP userInput =
     (case userInput of
        JString s \<Rightarrow> fallbackParseRFP_string s
      | _ \<Rightarrow> Throws (no_toLowerCase ''userInput'' userInput))"

definition fallbackParseProposal :: "jsvalue \<Rightarrow> parsedData outcome" where
  "fallbackParseProposal emailBody =
     (case emailBody of
        JString s \<Rightarrow> Returns (fallbackParseProposal_string s)
      | _ \<Rightarrow> Throws (no_toLowerCase ''emailBody'' emailBody))"

text \<open>
  The generative service. A request is identified by its kind and by the data that goes
  into the prompt; the fixed wording of the prompts is left out. The client answers
  with the content of the first choice or throws; \<open>openai\<close> is \<open>None\<close> when no API
  key is configured. \<open>JSON.parse\<close> of the content is a parameter.
\<close>

datatype request =
    RfpExtraction jsvalue
  | ProposalExtraction string jsvalue jsvalue
  | Comparison rfp "proposal list"

type_synonym client = "request \<Rightarrow> exn + string"

text \<open>
  The envelope: \<open>{success: true, data}\<close> with the service's parsed answer,
  \<open>{success: true, data, usedFallback: true}\<close>, or \<open>{success: false, error}\<close>.
\<close>

datatype ('j, 'd) envelope = FromService 'j | Fallback 'd | Failure string

definition success :: "('j, 'd) envelope \<Rightarrow> bool" where
  "success e = (case e of Failure _ \<Rightarrow> False | _ \<Rightarrow> True)"

definition usedFallback :: "('j, 'd) envelope \<Rightarrow> bool" where
  "usedFallback e = (case e of Fallback _ \<Rightarrow> True | _ \<Rightarrow> False)"

text \<open>The body of a \<open>try\<close> block: the call to the service and \<open>JSON.parse\<close> of its answer.\<close>

definition ask :: "client \<Rightarrow> (string \<Rightarrow> exn + 'j) \<Rightarrow> request \<Rightarrow> exn + 'j" where
  "ask c parse req = (case c req of Inl e \<Rightarrow> Inl e | Inr content \<Rightarrow> parse content)"

text \<open>
  \<open>parseRFPFromNaturalLanguage\<close>: the outcome and the requests sent to the service.
\<close>

definition parseRFPFromNaturalLanguage ::
  "client option \<Rightarrow> (string \<Rightarrow> exn + 'j) \<Rightarrow> jsvalue
     \<Rightarrow> ('j, extraction) envelope outcome \<times> request list" where
  "parseRFPFromNaturalLanguage openai parse userInput =
     (case openai of
        None \<Rightarrow>
          (case fallbackParseRFP userInput of
             Returns fallbackData \<Rightarrow> (Returns (Fallback fallbackData), [])
           | Throws e \<Rightarrow> (Throws e, [])
           | Diverges \<Rightarrow> (Diverges, []))
      | Some c \<Rightarrow>
          (case ask c parse (RfpExtraction userInput) of
             Inr parsed \<Rightarrow> (Returns (FromService parsed), [RfpExtraction userInput])
           | Inl error \<Rightarrow>
               (case fallbackParseRFP userInput of
                  Returns fallbackData \<Rightarrow>
                    (Returns (Fallback fallbackData), [RfpExtraction userInput])
                | Throws fallbackError \<Rightarrow>
                    (Returns (Failure (message error)), [RfpExtraction userInput])
                | Diverges \<Rightarrow> (Diverges, [RfpExtraction userInput]))))"

text \<open>
  \<open>parseVendorProposal\<close>: here the \<open>catch\<close> block calls the fallback without a
  \<open>try\<close> of its own.
\<close>

definition parseVendorProposal ::
  "client option \<Rightarrow> (string \<Rightarrow> exn + 'j) \<Rightarrow> jsvalue \<Rightarrow> jsvalue \<Rightarrow> string
     \<Rightarrow> ('j, parsedData) envelope outcome \<times> request list" where
  "parseVendorProposal openai parse emailBody emailSubject rfpContext =
     (case openai of
        None \<Rightarrow>
          (case fallbackParseProposal emailBody of
             Returns fallbackData \<Rightarrow> (Returns (Fallback fallbackData), [])
           | Throws e \<Rightarrow> (Throws e, [])
           | Diverges \<Rightarrow> (Diverges, []))
      | Some c \<Rightarrow>
          (let req = ProposalExtraction rfpContext emailSubject emailBody
           in case ask c parse req of
                Inr parsed \<Rightarrow> (Returns (FromService parsed), [req])
              | Inl error \<Rightarrow>
                  (case fallbackParseProposal emailBody of
                     Returns fallbackData \<Rightarrow> (Returns (Fallback fallbackData), [req])
                   | Throws e \<Rightarrow> (Throws e, [req])
                   | Diverges \<Rightarrow> (Diverges, [req]))))"

section \<open>The comparison service and its endpoint\<close>




record single_recommendation =
  sr_recommendedVendorId :: string
  sr_recommendedVendorName :: "string option"
  sr_reasoning :: string
  sr_risks :: "string list"

text \<open>
  The JSON bodies: \<open>{success: false, message, error?}\<close>, the single-proposal answer
  \<open>{success: true, message, data: {comparison, recommendation, proposals}}\<close>, and
  \<open>{success: true, data}\<close>.
\<close>

datatype body_json =
    Rejected string "string option"
  | OnlyOne string "comparison option" single_recommendation "proposal list"
  | Compared analysis






section \<open>The scores in the words of the specification\<close>






section \<open>Concrete inputs\<close>

text \<open>A runtime that renders the integer part of a number, enough for whole numbers.\<close>

definition integer_runtime :: runtime where
  "integer_runtime = \<lparr> toString = (\<lambda>q. int_str \<lfloor>q\<rfloor>), toLocaleString = (\<lambda>q. int_str \<lfloor>q\<rfloor>) \<rparr>"

definition mk_proposal :: "string \<Rightarrow> rat option \<Rightarrow> rat option \<Rightarrow> string option \<Rightarrow> proposal" where
  "mk_proposal n tp dd w = \<lparr> vendorId = Some \<lparr> vendor_id = n, name = Some n \<rparr>,
     parsedData = Some \<lparr> totalPrice = tp, itemPricing = [], deliveryTimeline = None, deliveryDays = dd,
       paymentTerms = None, warranty = w, validityPeriod = None, conditions = [], pd_notes = None \<rparr> \<rparr>"

definition demo_rfp :: rfp where
  "demo_rfp = \<lparr> title = ''T'', description = None, budget = None, rfp_deliveryDays = None,
     items = None, rfp_requirements = None, status = ''draft'' \<rparr>"



definition score_rows :: "exn + analysis \<Rightarrow> (int option \<times> int option \<times> int \<times> int option) list" where
  "score_rows res = (case res of Inl _ \<Rightarrow> []
     | Inr a \<Rightarrow> map (\<lambda>v. (priceScore v, deliveryScore v, termsScore v, overallScore v)) (vendorScores a))"




definition scenario_proposals :: "proposal list" where
  "scenario_proposals = [mk_proposal ''acme'' (Some 5000) (Some 14) None,
                         mk_proposal ''bolt'' (Some 8000) (Some 10) None]"

definition tie_proposals :: "proposal list" where
  "tie_proposals = [mk_proposal ''core'' (Some 8000) (Some 10) None,
                    mk_proposal ''acme'' (Some 5000) (Some 14) None,
                    mk_proposal ''bolt'' (Some 5000) (Some 14) None]"

definition name_rows :: "exn + analysis \<Rightarrow> string list" where
  "name_rows res = (case res of Inl _ \<Rightarrow> [] | Inr a \<Rightarrow> map vendorName (vendorScores a))"



definition scenario_text :: string where
  "scenario_text = ''We need 5 laptops with 16GB RAM and 2 monitors 24 inch, budget $10000, delivery in 2 weeks, Net 30 payment, 2 year warranty''"

definition monitor_text :: string where
  "monitor_text = ''2 monitors 24 inch with 16GB RAM''"

definition plain_text :: string where
  "plain_text = ''Please quote office supplies for our new branch''"

definition failing_client :: client where
  "failing_client = (\<lambda>req. Inl (Error ''Connection error.''))"

definition answering_client :: client where
  "answering_client = (\<lambda>req. Inr ''{}'')"

definition no_json :: "string \<Rightarrow> exn + unit" where
  "no_json = (\<lambda>content. Inl (SyntaxError ''Unexpected end of JSON input''))"

definition any_json :: "string \<Rightarrow> exn + unit" where
  "any_json = (\<lambda>content. Inr ())"



section \<open>Properties of the fallback comparison\<close>













lemma clamp100_Some [simp]: "clamp100 (Some v) = Some (max 0 (min 100 v))"
  by (simp add: clamp100_def)


subsection \<open>The sort\<close>

lemma set_insert_by [simp]: "set (insert_by cmp x xs) = insert x (set xs)"
  by (induction xs) auto

lemma mset_insert_by [simp]: "mset (insert_by cmp x xs) = add_mset x (mset xs)"
  by (induction xs) auto

lemma mset_array_sort [simp]: "mset (array_sort cmp xs) = mset xs"
  by (induction xs) (auto simp: array_sort_def)


lemma length_array_sort [simp]: "length (array_sort cmp xs) = length xs"
  by (metis mset_array_sort size_mset)






lemma deliveryScore_score [simp]:
  "deliveryScore (score_proposal rt ps p) = Some (max 0 (min 100 (deliveryScore_raw p)))"
  by (simp add: score_proposal_def Let_def)

lemma termsScore_score [simp]: "termsScore (score_proposal rt ps p) = termsScore_of p"
  by (simp add: score_proposal_def Let_def)

lemma priceScore_score [simp]:
  "priceScore (score_proposal rt ps p) = clamp100 (priceScore_raw ps p)"
  by (simp add: score_proposal_def Let_def)

lemma overallScore_score [simp]:
  "overallScore (score_proposal rt ps p) = clamp100 (overallScore_raw ps p)"
  by (simp add: score_proposal_def Let_def)








subsection \<open>Evaluating concrete comparisons\<close>

lemma floor_rat_numeral [simp]: "\<lfloor>numeral a / numeral b :: rat\<rfloor> = numeral a div numeral b"
  using floor_divide_of_int_eq[of "numeral a" "numeral b", where ?'a = rat] by simp

lemma floor_rat_neg_numeral [simp]: "\<lfloor>- (numeral a / numeral b) :: rat\<rfloor> = - numeral a div numeral b"
  using floor_divide_of_int_eq[of "- numeral a" "numeral b", where ?'a = rat] by simp

lemmas score_defs = overallScore_raw_def priceScore_raw_def deliveryScore_raw_def termsScore_of_def maxPrice_def minPrice_def
      price_def delivery_def p_totalPrice_def p_deliveryDays_def p_warranty_def or_num_def truthy_num_def truthy_str_def
      js_round_def

subsection \<open>Score ranges and the overall score\<close>





lemmas eval_defs = score_rows_def fallbackCompareProposals_def Let_def array_sort_def
      score_defs mk_proposal_def by_overallScore_def


lemma scenario_eval:
  "score_rows (fallbackCompareProposals integer_runtime demo_rfp scenario_proposals)
     = [(Some 100, Some 88, 60, Some 83), (Some 50, Some 92, 60, Some 67)]"
  by (simp add: eval_defs scenario_proposals_def)

subsection \<open>The price score\<close>




subsection \<open>The delivery score\<close>




subsection \<open>The ranking\<close>



lemma tie_ranking_eval:
  "name_rows (fallbackCompareProposals integer_runtime demo_rfp tie_proposals)
     = [''acme'', ''bolt'', ''core'']
   \<and> score_rows (fallbackCompareProposals integer_runtime demo_rfp tie_proposals)
     = [(Some 100, Some 88, 60, Some 83), (Some 100, Some 88, 60, Some 83),
        (Some 50, Some 92, 60, Some 67)]"
  by (simp add: eval_defs name_rows_def tie_proposals_def score_proposal_def or_str_def)


section \<open>Properties of the fallback email template\<close>











section \<open>Properties of the regex extraction\<close>

subsection \<open>Every match consumes input, so the item loop ends\<close>


lemma greedy_length: "r \<in> set (greedy i as s) \<Longrightarrow> length r \<le> length s"
  by (induction s) (auto split: if_splits)

lemma strip_lit_length: "strip_lit i p s = Some r \<Longrightarrow> length r \<le> length s"
  by (induction i p s rule: strip_lit.induct) (auto split: if_splits)

lemma rx_match_length: "(g, r) \<in> set (rx_match i rx s) \<Longrightarrow> length r \<le> length s"
proof (induction rx arbitrary: g r s)
  case (Seq a b)
  then obtain g1 r1 g2 where 1: "(g1, r1) \<in> set (rx_match i a s)"
    and 2: "(g2, r) \<in> set (rx_match i b r1)"
    by auto
  have "length r \<le> length r1" using Seq.IH(2)[OF 2] .
  moreover have "length r1 \<le> length s" using Seq.IH(1)[OF 1] .
  ultimately show ?case by simp
next
  case (Lit p)
  then show ?case by (auto split: option.splits dest: strip_lit_length[OF sym])
qed (auto split: list.splits if_splits dest: greedy_length)

lemma rx_match_SeqD:
  "(g, r) \<in> set (rx_match i (Seq a b) s) \<Longrightarrow>
     \<exists>g1 r1 g2. (g1, r1) \<in> set (rx_match i a s) \<and> (g2, r) \<in> set (rx_match i b r1) \<and> g = g1 @ g2"
  by auto

lemma rx_match_GroupD:
  "(g, r) \<in> set (rx_match i (Group a) s) \<Longrightarrow> \<exists>g1. (g1, r) \<in> set (rx_match i a s)"
  by auto

lemma plus_shorter: "(g, r) \<in> set (rx_match i (Plus as) s) \<Longrightarrow> length r < length s"
  by (cases s) (auto split: if_splits dest: greedy_length)

lemma item_rx_shorter:
  assumes "(g, r) \<in> set (rx_match i (item_rx ws) s)"
  shows "length r < length s"
proof -
  obtain g1 r1 g2 where 1: "(g1, r1) \<in> set (rx_match i (Group (Plus [Digit])) s)"
    and 2: "(g2, r) \<in> set (rx_match i (Seq (Star [Space]) (Group (alts ws))) r1)"
    using rx_match_SeqD[OF assms[unfolded item_rx_def]] by blast
  obtain g3 where "(g3, r1) \<in> set (rx_match i (Plus [Digit]) s)"
    using rx_match_GroupD[OF 1] by blast
  then have "length r1 < length s" by (rule plus_shorter)
  moreover have "length r \<le> length r1" using rx_match_length[OF 2] .
  ultimately show ?thesis by simp
qed

lemma search_from_shorter:
  assumes "\<And>s g r. (g, r) \<in> set (rx_match i rx s) \<Longrightarrow> length r < length s"
    and "search_from i rx pre s = Some m"
  shows "length (after m) < length s"
  using assms(2)
proof (induction s arbitrary: pre)
  case Nil
  have "rx_match i rx [] = []"
  proof (cases "rx_match i rx []")
    case (Cons x xs)
    then have "(fst x, snd x) \<in> set (rx_match i rx [])" by simp
    from assms(1)[OF this] show ?thesis by simp
  qed simp
  with Nil show ?case by simp
next
  case (Cons c cs)
  show ?case
  proof (cases "rx_match i rx (c # cs)")
    case Nil
    then have "search_from i rx (pre @ [c]) cs = Some m" using Cons.prems by simp
    from Cons.IH[OF this] show ?thesis by simp
  next
    case (Cons x xs)
    obtain g rest where x: "x = (g, rest)" by (cases x)
    have "(g, rest) \<in> set (rx_match i rx (c # cs))" using Cons x by simp
    from assms(1)[OF this] have "length rest < length (c # cs)" .
    moreover have "after m = rest" using Cons.prems Cons x by auto
    ultimately show ?thesis by simp
  qed
qed

lemma exec_loop_returns:
  assumes "\<And>s g r. (g, r) \<in> set (rx_match i rx s) \<Longrightarrow> length r < length s"
  shows "\<exists>ms. exec_loop i rx s = Returns ms"
proof (induction s rule: length_induct)
  case (1 s)
  show ?case
  proof (cases "exec i rx s")
    case None
    then show ?thesis by (subst exec_loop.simps) simp
  next
    case (Some m)
    then have lt: "length (after m) < length s"
      using search_from_shorter[where pre = "[]" and s = s and m = m and i = i and rx = rx] assms by (simp add: exec_def)
    then obtain ms where "exec_loop i rx (after m) = Returns ms" using 1 by blast
    then show ?thesis using Some lt by (subst exec_loop.simps) simp
  qed
qed

lemma collect_items_returns:
  assumes "\<forall>r \<in> set rs. \<exists>ws. r = item_rx ws"
  shows "\<exists>its. collect_items rs s = Returns its \<and> (\<forall>x \<in> set its. ei_specifications x = [])"
  using assms
proof (induction rs)
  case Nil
  then show ?case by simp
next
  case (Cons r rs)
  then obtain ws where r: "r = item_rx ws" by auto
  obtain ms where ms: "exec_loop True r s = Returns ms"
    using exec_loop_returns[of True r s] item_rx_shorter r by blast
  obtain its where its: "collect_items rs s = Returns its" "\<forall>x \<in> set its. ei_specifications x = []"
    using Cons by auto
  show ?case using ms its by (auto simp: item_of_match_def)
qed

lemma itemPatterns_shape: "\<forall>r \<in> set itemPatterns. \<exists>ws. r = item_rx ws"
  unfolding itemPatterns_def by (simp only: list.set ball_simps) blast

lemma length_set_first_spec [simp]: "length (set_first_spec sp its) = length its"
  by (cases its) (simp_all add: set_first_spec_def)

lemma length_set_monitor_spec [simp]: "length (set_monitor_spec sp its) = length its"
  by (induction its) simp_all

lemma length_attach_specs [simp]: "length (attach_specs u its) = length its"
  by (simp add: attach_specs_def Let_def split: option.splits)

lemma fallbackParseRFP_string_items:
  "\<exists>found x. collect_items itemPatterns s = Returns found \<and>
     fallbackParseRFP_string s = Returns x \<and>
     ex_items x = (if 0 < length found then attach_specs s found
                   else [\<lparr> ei_name = ''Items as specified'', ei_quantity = Num 1,
                           ei_specifications = take 100 s \<rparr>])"
proof -
  obtain found where f: "collect_items itemPatterns s = Returns found"
    using collect_items_returns[OF itemPatterns_shape] by blast
  show ?thesis
    unfolding fallbackParseRFP_string_def Let_def f
    by (simp add: substring0_def)
qed

subsection \<open>The scenario of the specification\<close>

lemma scenario_items:
  "collect_items itemPatterns scenario_text
     = Returns [\<lparr>ei_name = ''Laptop'', ei_quantity = Num 5, ei_specifications = []\<rparr>,
                \<lparr>ei_name = ''Monitor'', ei_quantity = Num 2, ei_specifications = []\<rparr>]"
  by code_simp

lemma scenario_specs:
  "attach_specs scenario_text
     [\<lparr>ei_name = ''Laptop'', ei_quantity = Num 5, ei_specifications = []\<rparr>,
      \<lparr>ei_name = ''Monitor'', ei_quantity = Num 2, ei_specifications = []\<rparr>]
   = [\<lparr>ei_name = ''Laptop'', ei_quantity = Num 5, ei_specifications = ''16GB RAM''\<rparr>,
      \<lparr>ei_name = ''Monitor'', ei_quantity = Num 2, ei_specifications = ''24 inch''\<rparr>]"
  by code_simp

lemma scenario_budget: "extract_budget scenario_text = Some (Num 10000)"
  by code_simp

lemma scenario_delivery: "extract_deliveryDays (toLowerCase scenario_text) = Some (Num 14)"
  by code_simp

lemma scenario_payment: "extract_paymentTerms (toLowerCase scenario_text) = Some ''Net 30''"
  by code_simp

lemma scenario_warranty: "extract_warranty (toLowerCase scenario_text) = Some ''2 years warranty''"
  by code_simp

text \<open>
  C4. On the scenario text of the specification the regex extractor returns the items
  Laptop (quantity 5, specifications 16GB RAM) and Monitor (quantity 2, specifications
  24 inch), budget 10000, deliveryDays 14, payment terms Net 30 and warranty
  2 years warranty.
\<close>

theorem C4_scenario:
  "\<exists>x. fallbackParseRFP (JString scenario_text) = Returns x \<and>
     ex_items x = [\<lparr>ei_name = ''Laptop'', ei_quantity = Num 5, ei_specifications = ''16GB RAM''\<rparr>,
                   \<lparr>ei_name = ''Monitor'', ei_quantity = Num 2, ei_specifications = ''24 inch''\<rparr>] \<and>
     ex_budget x = Some (Num 10000) \<and>
     ex_deliveryDays x = Some (Num 14) \<and>
     req_paymentTerms (ex_requirements x) = Some ''Net 30'' \<and>
     req_warranty (ex_requirements x) = Some ''2 years warranty''"
  unfolding fallbackParseRFP_def fallbackParseRFP_string_def Let_def
  by (simp add: scenario_items scenario_specs scenario_budget scenario_delivery
      scenario_payment scenario_warranty)

subsection \<open>The screen size overwrites the RAM specification\<close>

lemma set_monitor_spec_first:
  "str_includes (toLowerCase (ei_name x)) ''monitor'' \<Longrightarrow>
     set_monitor_spec sp (x # xs) = x\<lparr> ei_specifications := sp \<rparr> # xs"
  by simp

text \<open>
  C10. When the first extracted item is a monitor and the text holds both a RAM phrase
  and a screen-size phrase, the RAM specification is first attached to that item and
  then overwritten: the returned first item has the specifications "n inch" of the
  screen match, and no returned item carries the RAM specification.
\<close>

theorem C10_screen_overwrites_ram:
  assumes "collect_items itemPatterns s = Returns (x # xs)"
    and "str_includes (toLowerCase (ei_name x)) ''monitor''"
    and "exec True ram_rx s = Some mr"
    and "exec True screen_rx s = Some ms"
  shows "\<exists>e y ys. fallbackParseRFP (JString s) = Returns e \<and>
     ex_items e = y # ys \<and> ei_name y = ei_name x \<and>
     ei_specifications (hd (set_first_spec (group mr 1 @ ''GB RAM'') (x # xs)))
       = group mr 1 @ ''GB RAM'' \<and>
     ex_items e = set_monitor_spec (group ms 1 @ '' inch'')
                    (set_first_spec (group mr 1 @ ''GB RAM'') (x # xs)) \<and>
     ei_specifications y = group ms 1 @ '' inch'' \<and>
     (\<forall>z \<in> set (ex_items e). ei_specifications z \<noteq> group mr 1 @ ''GB RAM'')"
proof -
  obtain found e where fx: "collect_items itemPatterns s = Returns found"
    "fallbackParseRFP_string s = Returns e"
    "ex_items e = (if 0 < length found then attach_specs s found
                   else [\<lparr> ei_name = ''Items as specified'', ei_quantity = Num 1,
                           ei_specifications = take 100 s \<rparr>])"
    using fallbackParseRFP_string_items[of s] by blast
  have found: "found = x # xs" using fx(1) assms(1) by simp
  have empty: "\<forall>z \<in> set xs. ei_specifications z = []"
    using collect_items_returns[OF itemPatterns_shape, of s] assms(1) by auto
  have att: "attach_specs s (x # xs)
      = x\<lparr> ei_specifications := group ms 1 @ '' inch'' \<rparr> # xs"
    using assms(2,3,4) by (simp add: attach_specs_def set_first_spec_def)
  have items: "ex_items e = x\<lparr> ei_specifications := group ms 1 @ '' inch'' \<rparr> # xs"
    using fx(3) found att by simp
  have ne: "group ms 1 @ '' inch'' \<noteq> group mr 1 @ ''GB RAM''"
  proof
    assume "group ms 1 @ '' inch'' = group mr 1 @ ''GB RAM''"
    then have "last (group ms 1 @ '' inch'') = last (group mr 1 @ ''GB RAM'')" by simp
    then show False by simp
  qed
  have 1: "fallbackParseRFP (JString s) = Returns e" using fx(2) by (simp add: fallbackParseRFP_def)
  have 2: "ei_specifications (hd (set_first_spec (group mr 1 @ ''GB RAM'') (x # xs)))
       = group mr 1 @ ''GB RAM''" by (simp add: set_first_spec_def)
  have 3: "ex_items e = set_monitor_spec (group ms 1 @ '' inch'')
                    (set_first_spec (group mr 1 @ ''GB RAM'') (x # xs))"
    using items assms(2) by (simp add: set_first_spec_def)
  have 4: "\<forall>z \<in> set (ex_items e). ei_specifications z \<noteq> group mr 1 @ ''GB RAM''"
    using items ne empty by auto
  show ?thesis
    apply (rule exI[of _ e])
    apply (rule exI[of _ "x\<lparr> ei_specifications := group ms 1 @ '' inch'' \<rparr>"])
    apply (rule exI[of _ xs])
    using 1 2 3 4 items by simp
qed

lemma monitor_items:
  "collect_items itemPatterns monitor_text
     = Returns [\<lparr>ei_name = ''Monitor'', ei_quantity = Num 2, ei_specifications = []\<rparr>]"
  by code_simp

lemma monitor_name: "str_includes (toLowerCase ''Monitor'') ''monitor''"
  by code_simp

lemma monitor_ram:
  "exec True ram_rx monitor_text
     = Some \<lparr>before = ''2 monitors 24 inch with '', m0 = ''16GB RAM'', groups = [''16''], after = []\<rparr>"
  by code_simp

lemma monitor_screen:
  "exec True screen_rx monitor_text
     = Some \<lparr>before = ''2 monitors '', m0 = ''24 inch'', groups = [''24'', ''inch''],
              after = '' with 16GB RAM''\<rparr>"
  by code_simp

theorem C10_witness:
  "collect_items itemPatterns monitor_text
     = Returns [\<lparr>ei_name = ''Monitor'', ei_quantity = Num 2, ei_specifications = []\<rparr>] \<and>
   str_includes (toLowerCase ''Monitor'') ''monitor'' \<and>
   exec True ram_rx monitor_text
     = Some \<lparr>before = ''2 monitors 24 inch with '', m0 = ''16GB RAM'', groups = [''16''], after = []\<rparr> \<and>
   exec True screen_rx monitor_text
     = Some \<lparr>before = ''2 monitors '', m0 = ''24 inch'', groups = [''24'', ''inch''],
              after = '' with 16GB RAM''\<rparr> \<and>
   (\<exists>e. fallbackParseRFP (JString monitor_text) = Returns e \<and>
     ex_items e = [\<lparr>ei_name = ''Monitor'', ei_quantity = Num 2, ei_specifications = ''24 inch''\<rparr>])"
proof -
  have n: "str_includes (toLowerCase (ei_name
      \<lparr>ei_name = ''Monitor'', ei_quantity = Num 2, ei_specifications = []\<rparr>)) ''monitor''"
    using monitor_name by simp
  obtain e y ys where e: "fallbackParseRFP (JString monitor_text) = Returns e"
    "ex_items e = set_monitor_spec (group \<lparr>before = ''2 monitors '', m0 = ''24 inch'',
        groups = [''24'', ''inch''], after = '' with 16GB RAM''\<rparr> 1 @ '' inch'')
      (set_first_spec (group \<lparr>before = ''2 monitors 24 inch with '', m0 = ''16GB RAM'',
        groups = [''16''], after = []\<rparr> 1 @ ''GB RAM'')
        [\<lparr>ei_name = ''Monitor'', ei_quantity = Num 2, ei_specifications = []\<rparr>])"
    using C10_screen_overwrites_ram[OF monitor_items n monitor_ram monitor_screen] by blast
  have "ex_items e = [\<lparr>ei_name = ''Monitor'', ei_quantity = Num 2, ei_specifications = ''24 inch''\<rparr>]"
    unfolding e(2) using n by (simp add: set_first_spec_def group_def)
  then show ?thesis using e(1) monitor_items monitor_name monitor_ram monitor_screen by blast
qed


section \<open>Properties of the parsing operations\<close>

lemma plain_items: "collect_items itemPatterns plain_text = Returns []"
  by code_simp

text \<open>
  C2, as the code has it. On every string the regex extractor returns, with at least
  one item; when no category pattern matched, the items are the single placeholder item
  named Items as specified with quantity 1 and the first 100 characters of the input as
  specifications. With the service unconfigured, or configured but failing, the
  operation returns success with that result and usedFallback. When the service
  answers, the envelope carries its parsed answer as it is; when the service fails and
  the input is not a string, the operation returns the failure envelope.
\<close>

theorem C2_extraction_on_strings:
  "\<exists>found x.
     collect_items itemPatterns s = Returns found \<and>
     fallbackParseRFP (JString s) = Returns x \<and>
     1 \<le> length (ex_items x) \<and>
     (found = [] \<longrightarrow> ex_items x = [placeholder_item s]) \<and>
     parseRFPFromNaturalLanguage None parse (JString s) = (Returns (Fallback x), []) \<and>
     (\<forall>c e. ask c parse (RfpExtraction (JString s)) = Inl e \<longrightarrow>
        parseRFPFromNaturalLanguage (Some c) parse (JString s)
          = (Returns (Fallback x), [RfpExtraction (JString s)])) \<and>
     success (Fallback x :: ('j, extraction) envelope) \<and>
     (\<forall>c v j. ask c parse (RfpExtraction v) = Inr j \<longrightarrow>
        parseRFPFromNaturalLanguage (Some c) parse v
          = (Returns (FromService j), [RfpExtraction v])) \<and>
     (\<forall>c v e. ask c parse (RfpExtraction v) = Inl e \<and> (\<forall>t. v \<noteq> JString t) \<longrightarrow>
        parseRFPFromNaturalLanguage (Some c) parse v
          = (Returns (Failure (message e)), [RfpExtraction v]) \<and>
        \<not> success (Failure (message e) :: ('j, extraction) envelope))"
proof -
  obtain found x where fx: "collect_items itemPatterns s = Returns found"
    "fallbackParseRFP_string s = Returns x"
    "ex_items x = (if 0 < length found then attach_specs s found
                   else [\<lparr> ei_name = ''Items as specified'', ei_quantity = Num 1,
                           ei_specifications = take 100 s \<rparr>])"
    using fallbackParseRFP_string_items[of s] by blast
  have 1: "fallbackParseRFP (JString s) = Returns x" using fx(2) by (simp add: fallbackParseRFP_def)
  have 2: "1 \<le> length (ex_items x)" using fx(3) by (cases found) simp_all
  have 3: "found = [] \<longrightarrow> ex_items x = [placeholder_item s]"
    using fx(3) by (simp add: placeholder_item_def)
  have 4: "parseRFPFromNaturalLanguage None parse (JString s) = (Returns (Fallback x), [])"
    by (simp add: parseRFPFromNaturalLanguage_def 1)
  have 5: "\<forall>c e. ask c parse (RfpExtraction (JString s)) = Inl e \<longrightarrow>
        parseRFPFromNaturalLanguage (Some c) parse (JString s)
          = (Returns (Fallback x), [RfpExtraction (JString s)])"
    by (simp add: parseRFPFromNaturalLanguage_def 1)
  have 6: "success (Fallback x :: ('j, extraction) envelope)" by (simp add: success_def)
  have 7: "\<forall>c v j. ask c parse (RfpExtraction v) = Inr j \<longrightarrow>
        parseRFPFromNaturalLanguage (Some c) parse v
          = (Returns (FromService j), [RfpExtraction v])"
    by (simp add: parseRFPFromNaturalLanguage_def)
  have 8: "\<forall>c v e. ask c parse (RfpExtraction v) = Inl e \<and> (\<forall>t. v \<noteq> JString t) \<longrightarrow>
        parseRFPFromNaturalLanguage (Some c) parse v
          = (Returns (Failure (message e)), [RfpExtraction v]) \<and>
        \<not> success (Failure (message e) :: ('j, extraction) envelope)"
  proof (intro allI impI)
    fix c v e assume h: "ask c parse (RfpExtraction v) = Inl e \<and> (\<forall>t. v \<noteq> JString t)"
    then have "fallbackParseRFP v = Throws (no_toLowerCase ''userInput'' v)"
      by (cases v) (simp_all add: fallbackParseRFP_def)
    then show "parseRFPFromNaturalLanguage (Some c) parse v
          = (Returns (Failure (message e)), [RfpExtraction v]) \<and>
        \<not> success (Failure (message e) :: ('j, extraction) envelope)"
      using h by (simp add: parseRFPFromNaturalLanguage_def success_def)
  qed
  show ?thesis using fx(1) 1 2 3 4 5 6 7 8 by blast
qed

theorem C2_witness:
  "collect_items itemPatterns plain_text = Returns [] \<and>
   ask failing_client no_json (RfpExtraction (JString plain_text)) = Inl (Error ''Connection error.'') \<and>
   ask answering_client any_json (RfpExtraction (JString plain_text)) = Inr () \<and>
   ask failing_client no_json (RfpExtraction JNull) = Inl (Error ''Connection error.'') \<and>
   (\<exists>x. fallbackParseRFP (JString plain_text) = Returns x \<and>
        ex_items x = [placeholder_item plain_text] \<and>
        parseRFPFromNaturalLanguage None no_json (JString plain_text) = (Returns (Fallback x), []) \<and>
        parseRFPFromNaturalLanguage (Some failing_client) no_json (JString plain_text)
          = (Returns (Fallback x), [RfpExtraction (JString plain_text)])) \<and>
   parseRFPFromNaturalLanguage (Some answering_client) any_json (JString plain_text)
     = (Returns (FromService ()), [RfpExtraction (JString plain_text)]) \<and>
   parseRFPFromNaturalLanguage (Some failing_client) no_json JNull
     = (Returns (Failure ''Connection error.''), [RfpExtraction JNull])"
proof -
  have a1: "ask failing_client no_json (RfpExtraction (JString plain_text)) = Inl (Error ''Connection error.'')"
    by (simp add: ask_def failing_client_def)
  have a2: "ask answering_client any_json (RfpExtraction (JString plain_text)) = Inr ()"
    by (simp add: ask_def answering_client_def any_json_def)
  have a3: "ask failing_client no_json (RfpExtraction JNull) = Inl (Error ''Connection error.'')"
    by (simp add: ask_def failing_client_def)
  have a4: "\<forall>t. JNull \<noteq> JString t" by simp
  from C2_extraction_on_strings[of plain_text no_json]
  obtain found x where fx: "collect_items itemPatterns plain_text = Returns found"
     "fallbackParseRFP (JString plain_text) = Returns x"
     "found = [] \<longrightarrow> ex_items x = [placeholder_item plain_text]"
     "parseRFPFromNaturalLanguage None no_json (JString plain_text) = (Returns (Fallback x), [])"
     "\<forall>c e. ask c no_json (RfpExtraction (JString plain_text)) = Inl e \<longrightarrow>
        parseRFPFromNaturalLanguage (Some c) no_json (JString plain_text)
          = (Returns (Fallback x), [RfpExtraction (JString plain_text)])"
     "\<forall>c v e. ask c no_json (RfpExtraction v) = Inl e \<and> (\<forall>t. v \<noteq> JString t) \<longrightarrow>
        parseRFPFromNaturalLanguage (Some c) no_json v
          = (Returns (Failure (message e)), [RfpExtraction v])"
    by blast
  have f: "found = []" using fx(1) plain_items by simp
  from C2_extraction_on_strings[of plain_text any_json]
  have 7: "\<forall>c v j. ask c any_json (RfpExtraction v) = Inr j \<longrightarrow>
        parseRFPFromNaturalLanguage (Some c) any_json v
          = (Returns (FromService j), [RfpExtraction v])"
    by blast
  have b1: "parseRFPFromNaturalLanguage (Some answering_client) any_json (JString plain_text)
     = (Returns (FromService ()), [RfpExtraction (JString plain_text)])"
    using 7 a2 by blast
  have b2: "parseRFPFromNaturalLanguage (Some failing_client) no_json JNull
     = (Returns (Failure ''Connection error.''), [RfpExtraction JNull])"
    using fx(6) a3 a4 by fastforce
  have b3: "parseRFPFromNaturalLanguage (Some failing_client) no_json (JString plain_text)
          = (Returns (Fallback x), [RfpExtraction (JString plain_text)])"
    using fx(5) a1 by blast
  show ?thesis using plain_items a1 a2 a3 a4 fx(2,3,4) f b1 b2 b3 by blast
qed

text \<open>
  C2 as stated fails: with a configured service that fails and the input 42, a number,
  the operation returns the failure envelope, not success.
\<close>

theorem C2_counterexample:
  "parseRFPFromNaturalLanguage (Some failing_client) no_json (JNumber 42)
     = (Returns (Failure ''Connection error.''), [RfpExtraction (JNumber 42)])
   \<and> \<not> success (Failure ''Connection error.'' :: (unit, extraction) envelope)"
  by (simp add: parseRFPFromNaturalLanguage_def ask_def failing_client_def fallbackParseRFP_def
      success_def)

text \<open>
  C3, at the failing input. With the service unconfigured, the number 42 as input makes
  the fallback of the RFP extraction throw, and the exception leaves the operation; the
  vendor-proposal extraction lets it escape on both of its paths. Only the configured
  path of the RFP extraction catches it and returns the failure envelope.
\<close>

theorem C3_fallback_error_escapes:
  "parseRFPFromNaturalLanguage None parse (JNumber 42)
     = (Throws (TypeError ''userInput.toLowerCase is not a function''), [])
   \<and> parseVendorProposal None parse (JNumber 42) subj ctx
     = (Throws (TypeError ''emailBody.toLowerCase is not a function''), [])
   \<and> parseVendorProposal (Some failing_client) parse (JNumber 42) subj ctx
     = (Throws (TypeError ''emailBody.toLowerCase is not a function''),
        [ProposalExtraction ctx subj (JNumber 42)])
   \<and> parseRFPFromNaturalLanguage (Some failing_client) parse (JNumber 42)
     = (Returns (Failure ''Connection error.''), [RfpExtraction (JNumber 42)])"
  by (simp add: parseRFPFromNaturalLanguage_def parseVendorProposal_def ask_def failing_client_def
      fallbackParseRFP_def fallbackParseProposal_def no_toLowerCase_def)

text \<open>The parts of C3 that hold: on a string both operations fall back.\<close>

lemma parse_operations_fall_back:
  "\<exists>x. parseRFPFromNaturalLanguage None parse (JString s) = (Returns (Fallback x), []) \<and>
       (ask c parse (RfpExtraction (JString s)) = Inl e \<longrightarrow>
          parseRFPFromNaturalLanguage (Some c) parse (JString s)
            = (Returns (Fallback x), [RfpExtraction (JString s)]))"
  "parseVendorProposal None parse (JString s) subj ctx
     = (Returns (Fallback (fallbackParseProposal_string s)), [])"
  "ask c parse (ProposalExtraction ctx subj (JString s)) = Inl e \<Longrightarrow>
     parseVendorProposal (Some c) parse (JString s) subj ctx
       = (Returns (Fallback (fallbackParseProposal_string s)),
          [ProposalExtraction ctx subj (JString s)])"
proof -
  obtain x where x: "fallbackParseRFP (JString s) = Returns x"
    using fallbackParseRFP_string_items[of s] by (auto simp: fallbackParseRFP_def)
  show "\<exists>x. parseRFPFromNaturalLanguage None parse (JString s) = (Returns (Fallback x), []) \<and>
       (ask c parse (RfpExtraction (JString s)) = Inl e \<longrightarrow>
          parseRFPFromNaturalLanguage (Some c) parse (JString s)
            = (Returns (Fallback x), [RfpExtraction (JString s)]))"
    by (rule exI[of _ x]) (simp add: parseRFPFromNaturalLanguage_def x)
  show "parseVendorProposal None parse (JString s) subj ctx
     = (Returns (Fallback (fallbackParseProposal_string s)), [])"
    by (simp add: parseVendorProposal_def fallbackParseProposal_def)
  show "ask c parse (ProposalExtraction ctx subj (JString s)) = Inl e \<Longrightarrow>
     parseVendorProposal (Some c) parse (JString s) subj ctx
       = (Returns (Fallback (fallbackParseProposal_string s)),
          [ProposalExtraction ctx subj (JString s)])"
    by (simp add: parseVendorProposal_def fallbackParseProposal_def Let_def)
qed


section \<open>Properties of the comparison endpoint\<close>



end
